theory Spec2Isabelle
  imports Complex_Main
begin

unbundle bit_operations_syntax

section \<open>The notifier script \<open>win_notifer.py\<close>\<close>

text \<open>
  The script is a module body: a platform check, seven configuration constants, a
  validation of the interval, the function \<open>play_windows_notification\<close> and, under
  \<open>__name__ == "__main__"\<close>, a banner and an unbounded loop inside
  \<open>try / except KeyboardInterrupt / except Exception / finally\<close>.

  Everything the script does is an effect on the outside world, so the model threads a
  state (the module globals and the history of effects) through every operation and takes
  the behaviour of the outside world (the clock, the sound device, the sleep call) as a
  parameter. An exception is a value returned next to the state.
\<close>

subsection \<open>Python values of the interval\<close>

text \<open>
  \<open>INTERVAL_SECONDS\<close> is the one constant whose type the script inspects, so it is a
  Python value. A float is NaN, an infinity or a finite value (every finite float is a
  rational number).
\<close>

datatype pyfloat = FNaN | FPosInf | FNegInf | FFinite rat

datatype pyval = PyInt int | PyBool bool | PyFloat pyfloat | PyStr string | PyNone

text \<open>\<open>isinstance(v, (int, float))\<close>; \<open>bool\<close> is a subclass of \<open>int\<close>.\<close>

fun isinstance_int_float :: "pyval \<Rightarrow> bool" where
  "isinstance_int_float (PyInt i) = True"
| "isinstance_int_float (PyBool b) = True"
| "isinstance_int_float (PyFloat f) = True"
| "isinstance_int_float (PyStr s) = False"
| "isinstance_int_float PyNone = False"

text \<open>\<open>f <= 0\<close> on floats: every comparison with NaN is false.\<close>

fun float_le_zero :: "pyfloat \<Rightarrow> bool" where
  "float_le_zero FNaN = False"
| "float_le_zero FPosInf = False"
| "float_le_zero FNegInf = True"
| "float_le_zero (FFinite r) = (r \<le> 0)"

text \<open>
  \<open>v <= 0\<close>: \<open>None\<close> is the \<open>TypeError\<close> that Python raises for a string or
  \<open>None\<close>; \<open>False\<close> is 0 and \<open>True\<close> is 1.
\<close>

fun py_le_zero :: "pyval \<Rightarrow> bool option" where
  "py_le_zero (PyInt i) = Some (i \<le> 0)"
| "py_le_zero (PyBool b) = Some (\<not> b)"
| "py_le_zero (PyFloat f) = Some (float_le_zero f)"
| "py_le_zero (PyStr s) = None"
| "py_le_zero PyNone = None"

text \<open>
  The condition of line 32,
  \<open>not isinstance(INTERVAL_SECONDS, (int, float)) or INTERVAL_SECONDS <= 0\<close>.
  \<open>or\<close> evaluates its right operand only when the left one is false.
\<close>

definition interval_rejected :: "pyval \<Rightarrow> bool" where
  "interval_rejected v =
     (if \<not> isinstance_int_float v then True
      else (case py_le_zero v of Some b \<Rightarrow> b | None \<Rightarrow> False))"

subsection \<open>Configuration constants\<close>

record config =
  INTERVAL_SECONDS :: pyval
  SOUND_ALIAS :: string
  USE_ALIAS :: bool
  BEEP_FREQUENCY :: int
  BEEP_DURATION :: int
  WAV_FILE :: string
  USE_WAV :: bool

text \<open>The values of lines 15 to 28.\<close>

definition shipped_config :: config where
  "shipped_config =
     \<lparr> INTERVAL_SECONDS = PyInt 300,
       SOUND_ALIAS = ''SystemAsterisk'',
       USE_ALIAS = True,
       BEEP_FREQUENCY = 1000,
       BEEP_DURATION = 300,
       WAV_FILE = ''C:'' @ [CHR 0x5C] @ ''Windows'' @ [CHR 0x5C] @ ''Media'' @ [CHR 0x5C] @ ''notify.wav'',
       USE_WAV = True \<rparr>"

subsection \<open>Exceptions\<close>

text \<open>
  The exceptions that the statements inside the loop can raise: \<open>RuntimeError\<close> (what
  \<open>winsound\<close> raises) and its two built-in subclasses, other subclasses of
  \<open>Exception\<close> (among them \<open>UnicodeEncodeError\<close>, what \<open>print\<close> raises for a
  text that the console cannot encode), and \<open>KeyboardInterrupt\<close>, which derives from
  \<open>BaseException\<close> only. The string is \<open>str(e)\<close>.
\<close>

datatype exc_class =
  RuntimeError | NotImplementedError | RecursionError
  | TypeError | ValueError | UnicodeEncodeError | OverflowError | OSError | MemoryError
  | KeyboardInterrupt

datatype pyexc = PyExc exc_class string

fun isinstance_RuntimeError :: "pyexc \<Rightarrow> bool" where
  "isinstance_RuntimeError (PyExc c m) =
     (c = RuntimeError \<or> c = NotImplementedError \<or> c = RecursionError)"

fun isinstance_Exception :: "pyexc \<Rightarrow> bool" where
  "isinstance_Exception (PyExc c m) = (c \<noteq> KeyboardInterrupt)"

fun isinstance_KeyboardInterrupt :: "pyexc \<Rightarrow> bool" where
  "isinstance_KeyboardInterrupt (PyExc c m) = (c = KeyboardInterrupt)"

subsection \<open>Effects and the outside world\<close>

record datetime =
  year :: nat
  month :: nat
  day :: nat
  hour :: nat
  minute :: nat
  second :: nat

text \<open>
  A printed line is the list of the pieces of its f-string: literal text, a formatted
  value, a formatted string, a formatted integer, a time under a format specification,
  or \<open>str(e)\<close> of an exception.
\<close>

datatype frag =
  Lit string
  | FmtVal pyval
  | FmtStr string
  | FmtInt int
  | FmtTime datetime string
  | FmtExc pyexc

text \<open>
  The effects of the script, in the order they happen: a line on the console, a call of
  \<open>winsound.PlaySound(sound, flags)\<close>, of \<open>winsound.Beep(frequency, duration)\<close>, of
  \<open>time.sleep(secs)\<close>. A call is recorded when it is made, whether it returns or raises.
\<close>

datatype event =
  Print "frag list"
  | PlaySound string int
  | Beep int int
  | Sleep pyval

datatype outcome = Returns | Raises pyexc

text \<open>
  The statements of the \<open>try\<close> of \<open>play_windows_notification\<close> that can raise: the
  print of the timestamped line (line 41), the print of the line that names the resource
  (line 43, 46 or 50), and the call of the sound primitive (line 44, 48 or 51).
\<close>

datatype step = PlayingPrint | ResourcePrint | SoundCall

text \<open>
  What the outside world does in the iteration with a given index: the time that
  \<open>datetime.datetime.now()\<close> returns; how the playback attempt (the statements of the
  \<open>try\<close>) ends and, when it raises, in which of its statements; how the sleep ends.
  An interrupt arrives as the \<open>KeyboardInterrupt\<close> raised by the statement during
  which it is delivered.
\<close>

record world =
  now :: "nat \<Rightarrow> datetime"
  sound :: "nat \<Rightarrow> outcome"
  raising_step :: "nat \<Rightarrow> step"
  sleeps :: "nat \<Rightarrow> outcome"

record state =
  globals :: config
  trace :: "event list"

text \<open>The flag values of the \<open>winsound\<close> module.\<close>

definition SND_ASYNC :: int where "SND_ASYNC = 1"
definition SND_ALIAS :: int where "SND_ALIAS = 65536"
definition SND_FILENAME :: int where "SND_FILENAME = 131072"

definition emit :: "event \<Rightarrow> state \<Rightarrow> state" where
  "emit ev s = s\<lparr>trace := trace s @ [ev]\<rparr>"

definition print :: "frag list \<Rightarrow> state \<Rightarrow> state" where
  "print line s = emit (Print line) s"

definition raised :: "outcome \<Rightarrow> pyexc option" where
  "raised r = (case r of Returns \<Rightarrow> None | Raises e \<Rightarrow> Some e)"

text \<open>The exception, if any, that the given statement of the attempt raises.\<close>

definition raises_at :: "world \<Rightarrow> nat \<Rightarrow> step \<Rightarrow> pyexc option" where
  "raises_at w i p =
     (case sound w i of
        Returns \<Rightarrow> None
      | Raises e \<Rightarrow> if raising_step w i = p then Some e else None)"

text \<open>
  A status print inside the \<open>try\<close>: it writes its line, or it raises and writes
  nothing.
\<close>

definition status_print :: "world \<Rightarrow> nat \<Rightarrow> step \<Rightarrow> frag list \<Rightarrow> state \<Rightarrow> state \<times> pyexc option" where
  "status_print w i p line s =
     (case raises_at w i p of Some e \<Rightarrow> (s, Some e) | None \<Rightarrow> (print line s, None))"

definition winsound_PlaySound :: "world \<Rightarrow> nat \<Rightarrow> string \<Rightarrow> int \<Rightarrow> state \<Rightarrow> state \<times> pyexc option" where
  "winsound_PlaySound w i name flags s = (emit (PlaySound name flags) s, raises_at w i SoundCall)"

definition winsound_Beep :: "world \<Rightarrow> nat \<Rightarrow> int \<Rightarrow> int \<Rightarrow> state \<Rightarrow> state \<times> pyexc option" where
  "winsound_Beep w i freq dur s = (emit (Beep freq dur) s, raises_at w i SoundCall)"

definition time_sleep :: "world \<Rightarrow> nat \<Rightarrow> pyval \<Rightarrow> state \<Rightarrow> state \<times> pyexc option" where
  "time_sleep w i secs s = (emit (Sleep secs) s, raised (sleeps w i))"

subsection \<open>\<open>play_windows_notification\<close>\<close>

text \<open>
  The body of the \<open>try\<close>, lines 41 to 51. Each status print comes before the call of
  the primitive, so when one of them raises the call is not made.
\<close>

definition try_body :: "world \<Rightarrow> nat \<Rightarrow> state \<Rightarrow> state \<times> pyexc option" where
  "try_body w i s =
     (case status_print w i PlayingPrint
             [FmtTime (now w i) ''%Y-%m-%d %H:%M:%S'', Lit '' - Playing notification...''] s of
        (s1, Some e) \<Rightarrow> (s1, Some e)
      | (s1, None) \<Rightarrow>
          if USE_ALIAS (globals s1) then
            (case status_print w i ResourcePrint
                    [Lit ''(Using alias: '', FmtStr (SOUND_ALIAS (globals s1)), Lit '')''] s1 of
               (s2, Some e) \<Rightarrow> (s2, Some e)
             | (s2, None) \<Rightarrow> winsound_PlaySound w i (SOUND_ALIAS (globals s2)) SND_ALIAS s2)
          else if USE_WAV (globals s1) then
            (case status_print w i ResourcePrint
                    [Lit ''(Using WAV file: '', FmtStr (WAV_FILE (globals s1)), Lit '')''] s1 of
               (s2, Some e) \<Rightarrow> (s2, Some e)
             | (s2, None) \<Rightarrow>
                 winsound_PlaySound w i (WAV_FILE (globals s2)) (SND_FILENAME OR SND_ASYNC) s2)
          else
            (case status_print w i ResourcePrint
                    [Lit ''(Using Beep: '', FmtInt (BEEP_FREQUENCY (globals s1)), Lit '' Hz, '',
                     FmtInt (BEEP_DURATION (globals s1)), Lit '' ms)''] s1 of
               (s2, Some e) \<Rightarrow> (s2, Some e)
             | (s2, None) \<Rightarrow>
                 winsound_Beep w i (BEEP_FREQUENCY (globals s2)) (BEEP_DURATION (globals s2)) s2))"

text \<open>
  Lines 40 to 56: the two handlers. An exception that neither handler matches leaves the
  function.
\<close>

definition play_windows_notification :: "world \<Rightarrow> nat \<Rightarrow> state \<Rightarrow> state \<times> pyexc option" where
  "play_windows_notification w i s =
     (case try_body w i s of
        (s1, None) \<Rightarrow> (s1, None)
      | (s1, Some e) \<Rightarrow>
          if isinstance_RuntimeError e then
            (print [Lit ''Check if the sound alias/file exists or if another sound is playing.'']
               (print [Lit (CHR 0x0A # ''Error playing sound with winsound: ''), FmtExc e] s1), None)
          else if isinstance_Exception e then
            (print [Lit (CHR 0x0A # ''An unexpected error occurred during sound playback: ''), FmtExc e] s1,
             None)
          else (s1, Some e))"

subsection \<open>The main block\<close>

text \<open>
  The \<open>while True\<close> loop of lines 66 to 72, with fuel: each unit of fuel is one
  iteration, \<open>i\<close> is the index of the iteration. The result \<open>None\<close> says that the
  fuel ran out with the loop still running; the loop itself ends only by an exception.
\<close>

fun loop :: "world \<Rightarrow> nat \<Rightarrow> nat \<Rightarrow> state \<Rightarrow> state \<times> pyexc option" where
  "loop w 0 i s = (s, None)"
| "loop w (Suc n) i s =
     (case play_windows_notification w i s of
        (s1, Some e) \<Rightarrow> (s1, Some e)
      | (s1, None) \<Rightarrow>
          (case time_sleep w i (INTERVAL_SECONDS (globals s1))
                  (print [Lit ''Waiting for '', FmtVal (INTERVAL_SECONDS (globals s1)), Lit '' seconds...''] s1) of
             (s2, Some e) \<Rightarrow> (s2, Some e)
           | (s2, None) \<Rightarrow> loop w n (Suc i) s2))"

text \<open>
  How the process ends: with an exit status, or with an exception that nothing caught.
\<close>

datatype ending = Exited int | Uncaught pyexc

text \<open>
  Lines 60 to 79. After either handler and the \<open>finally\<close> clause the module body is
  at its end, so the interpreter exits with status 0.
\<close>

definition main_block :: "world \<Rightarrow> nat \<Rightarrow> state \<Rightarrow> state \<times> ending option" where
  "main_block w fuel s =
     (let s1 = print [Lit ''--- Windows Notification Script Started (using winsound) ---''] s;
          s2 = print [Lit ''Triggering sound every '', FmtVal (INTERVAL_SECONDS (globals s1)), Lit '' seconds.''] s1;
          s3 = print [Lit ''Press Ctrl+C to stop.''] s2;
          s4 = print [Lit (replicate 55 (CHR ''-''))] s3
      in case loop w fuel 0 s4 of
           (s5, None) \<Rightarrow> (s5, None)
         | (s5, Some e) \<Rightarrow>
             if isinstance_KeyboardInterrupt e then
               (print [Lit ''Exiting.'']
                  (print [Lit (CHR 0x0A # ''--- Notification Script Stopped by User ---'')] s5),
                Some (Exited 0))
             else if isinstance_Exception e then
               (print [Lit ''Exiting.'']
                  (print [Lit ''Error details: '', FmtExc e]
                     (print [Lit (CHR 0x0A # ''--- An Unexpected Error Occurred ---'')] s5)),
                Some (Exited 0))
             else (print [Lit ''Exiting.''] s5, Some (Uncaught e)))"

text \<open>
  The module body. \<open>system\<close> is the value of \<open>platform.system()\<close>, \<open>name\<close> the
  value of \<open>__name__\<close>, \<open>c\<close> the constants of the configuration block. The result
  is the history of effects and how the process ended (\<open>None\<close>: still in the loop when
  the fuel ran out). \<open>sys.exit(1)\<close> at module level ends the process with status 1.
  Under another \<open>__name__\<close> (the module imported, not run) the body ends after the
  validation.
\<close>

definition program :: "string \<Rightarrow> string \<Rightarrow> config \<Rightarrow> world \<Rightarrow> nat \<Rightarrow> event list \<times> ending option" where
  "program system name c w fuel =
     (if system \<noteq> ''Windows'' then
        ([Print [Lit ''Error: This script uses 'winsound' and is designed for Windows only.'']],
         Some (Exited 1))
      else
        let s = \<lparr> globals = c, trace = [] \<rparr>
        in if interval_rejected (INTERVAL_SECONDS (globals s)) then
             (trace (print [Lit ''Error: INTERVAL_SECONDS must be a positive number. Found: '',
                            FmtVal (INTERVAL_SECONDS (globals s))] s),
              Some (Exited 1))
           else if name = ''__main__'' then
             (case main_block w fuel s of (s', t) \<Rightarrow> (trace s', t))
           else (trace s, Some (Exited 0)))"

subsection \<open>Vocabulary for the statements\<close>

text \<open>
  The pieces of the history that the theorems speak about. None of them is used by the
  model above; each is related to it by a lemma below.
\<close>

text \<open>The four lines of the banner, lines 60 to 63.\<close>

definition banner :: "config \<Rightarrow> event list" where
  "banner c =
     [Print [Lit ''--- Windows Notification Script Started (using winsound) ---''],
      Print [Lit ''Triggering sound every '', FmtVal (INTERVAL_SECONDS c), Lit '' seconds.''],
      Print [Lit ''Press Ctrl+C to stop.''],
      Print [Lit (replicate 55 (CHR ''-''))]]"

text \<open>The line that names the resource, and the call of the primitive, by mode.\<close>

definition using_line :: "config \<Rightarrow> event" where
  "using_line c =
     (if USE_ALIAS c then Print [Lit ''(Using alias: '', FmtStr (SOUND_ALIAS c), Lit '')'']
      else if USE_WAV c then Print [Lit ''(Using WAV file: '', FmtStr (WAV_FILE c), Lit '')'']
      else Print [Lit ''(Using Beep: '', FmtInt (BEEP_FREQUENCY c), Lit '' Hz, '',
                  FmtInt (BEEP_DURATION c), Lit '' ms)''])"

definition mode_call :: "config \<Rightarrow> event" where
  "mode_call c =
     (if USE_ALIAS c then PlaySound (SOUND_ALIAS c) SND_ALIAS
      else if USE_WAV c then PlaySound (WAV_FILE c) (SND_FILENAME OR SND_ASYNC)
      else Beep (BEEP_FREQUENCY c) (BEEP_DURATION c))"

text \<open>
  The attempt reaches the call of the primitive: neither status print raises.
\<close>

definition reaches_call :: "world \<Rightarrow> nat \<Rightarrow> bool" where
  "reaches_call w i = (raises_at w i PlayingPrint = None \<and> raises_at w i ResourcePrint = None)"

text \<open>
  A playback attempt: the timestamped line, the resource line, the call. It stops short
  at a status print that raises.
\<close>

definition attempt :: "config \<Rightarrow> world \<Rightarrow> nat \<Rightarrow> event list" where
  "attempt c w i =
     (if raises_at w i PlayingPrint \<noteq> None then []
      else if raises_at w i ResourcePrint \<noteq> None then
        [Print [FmtTime (now w i) ''%Y-%m-%d %H:%M:%S'', Lit '' - Playing notification...'']]
      else
        [Print [FmtTime (now w i) ''%Y-%m-%d %H:%M:%S'', Lit '' - Playing notification...''],
         using_line c, mode_call c])"

text \<open>What the handlers of \<open>play_windows_notification\<close> print for an exception.\<close>

definition failure_lines :: "pyexc \<Rightarrow> event list" where
  "failure_lines e =
     (if isinstance_RuntimeError e then
        [Print [Lit ''\<newline>Error playing sound with winsound: '', FmtExc e],
         Print [Lit ''Check if the sound alias/file exists or if another sound is playing.'']]
      else if isinstance_Exception e then
        [Print [Lit ''\<newline>An unexpected error occurred during sound playback: '', FmtExc e]]
      else [])"

definition after_attempt :: "outcome \<Rightarrow> event list" where
  "after_attempt r = (case r of Returns \<Rightarrow> [] | Raises e \<Rightarrow> failure_lines e)"

text \<open>The wait step: the line and the call of \<open>time.sleep\<close>.\<close>

definition wait_step :: "config \<Rightarrow> event list" where
  "wait_step c =
     [Print [Lit ''Waiting for '', FmtVal (INTERVAL_SECONDS c), Lit '' seconds...''],
      Sleep (INTERVAL_SECONDS c)]"

text \<open>The history of one whole iteration.\<close>

definition cycle :: "config \<Rightarrow> world \<Rightarrow> nat \<Rightarrow> event list" where
  "cycle c w i = attempt c w i @ after_attempt (sound w i) @ wait_step c"

definition cycles :: "config \<Rightarrow> world \<Rightarrow> nat \<Rightarrow> nat \<Rightarrow> event list" where
  "cycles c w i n = concat (map (cycle c w) [i..<i + n])"

text \<open>The two lines of an interrupt, and the three of an unexpected failure.\<close>

definition stopped_by_user :: "event list" where
  "stopped_by_user =
     [Print [Lit ''\<newline>--- Notification Script Stopped by User ---''], Print [Lit ''Exiting.'']]"

definition unexpected_error :: "pyexc \<Rightarrow> event list" where
  "unexpected_error e =
     [Print [Lit ''\<newline>--- An Unexpected Error Occurred ---''],
      Print [Lit ''Error details: '', FmtExc e],
      Print [Lit ''Exiting.'']]"

text \<open>
  The playback attempt of an iteration does not leave \<open>play_windows_notification\<close>
  with an exception: it returns, or one of its statements raises an instance of
  \<open>Exception\<close>.
\<close>

definition contained :: "outcome \<Rightarrow> bool" where
  "contained r = (case r of Returns \<Rightarrow> True | Raises e \<Rightarrow> isinstance_Exception e)"

text \<open>An iteration that runs to its end.\<close>

definition completes :: "world \<Rightarrow> nat \<Rightarrow> bool" where
  "completes w i = (contained (sound w i) \<and> sleeps w i = Returns)"

text \<open>A call of one of the two sound primitives.\<close>

fun is_sound_call :: "event \<Rightarrow> bool" where
  "is_sound_call (PlaySound n f) = True"
| "is_sound_call (Beep f d) = True"
| "is_sound_call (Print l) = False"
| "is_sound_call (Sleep v) = False"

text \<open>\<open>v > 0\<close> for a number \<open>v\<close>.\<close>

fun py_positive :: "pyval \<Rightarrow> bool" where
  "py_positive (PyInt i) = (0 < i)"
| "py_positive (PyBool b) = b"
| "py_positive (PyFloat FNaN) = False"
| "py_positive (PyFloat FPosInf) = True"
| "py_positive (PyFloat FNegInf) = False"
| "py_positive (PyFloat (FFinite r)) = (0 < r)"
| "py_positive (PyStr s) = False"
| "py_positive PyNone = False"

text \<open>
  An event whose arguments are those of the configuration \<open>c\<close>: a sound call is the
  call of the mode of \<open>c\<close>, a sleep is for the interval of \<open>c\<close>.
\<close>

fun from_config :: "config \<Rightarrow> event \<Rightarrow> bool" where
  "from_config c (Print l) = True"
| "from_config c (PlaySound n f) = (PlaySound n f = mode_call c)"
| "from_config c (Beep f d) = (Beep f d = mode_call c)"
| "from_config c (Sleep v) = (v = INTERVAL_SECONDS c)"

subsection \<open>Sample worlds\<close>

definition noon :: datetime where
  "noon = \<lparr> year = 2025, month = 6, day = 1, hour = 12, minute = 0, second = 0 \<rparr>"

text \<open>Every call returns.\<close>

definition calm :: world where
  "calm = \<lparr> now = (\<lambda>i. noon), sound = (\<lambda>i. Returns), raising_step = (\<lambda>i. SoundCall),
            sleeps = (\<lambda>i. Returns) \<rparr>"

text \<open>The sound device is busy in iteration 1.\<close>

definition busy_once :: world where
  "busy_once = calm \<lparr> sound := (\<lambda>i. if i = 1 then Raises (PyExc RuntimeError ''Failed to play sound'') else Returns) \<rparr>"

text \<open>Ctrl+C during the sleep of iteration 1.\<close>

definition interrupt_in_sleep :: world where
  "interrupt_in_sleep = calm \<lparr> sleeps := (\<lambda>i. if i = 1 then Raises (PyExc KeyboardInterrupt []) else Returns) \<rparr>"

text \<open>Ctrl+C during the sound call of iteration 1.\<close>

definition interrupt_in_sound :: world where
  "interrupt_in_sound = calm \<lparr> sound := (\<lambda>i. if i = 1 then Raises (PyExc KeyboardInterrupt []) else Returns) \<rparr>"

text \<open>The sleep of iteration 0 fails.\<close>

definition sleep_fails :: world where
  "sleep_fails = calm \<lparr> sleeps := (\<lambda>i. if i = 0 then Raises (PyExc OverflowError ''timestamp too large to convert to C PyTime_t'') else Returns) \<rparr>"

text \<open>
  A console that cannot encode a letter outside ASCII: the print of a resource line that
  holds one raises.
\<close>

definition ascii_console :: world where
  "ascii_console = calm \<lparr> sound := (\<lambda>i. Raises (PyExc UnicodeEncodeError ''ordinal not in range(128)'')),
                          raising_step := (\<lambda>i. ResourcePrint) \<rparr>"

text \<open>The shipped constants with an alias that holds such a letter (U+00E9).\<close>

definition accented_alias :: config where
  "accented_alias = shipped_config \<lparr> SOUND_ALIAS := ''Syst'' @ [CHR 0xE9] @ ''me'' \<rparr>"

text \<open>The shipped constants with an interval beyond what \<open>time.sleep\<close> accepts.\<close>

definition far_interval :: config where
  "far_interval = shipped_config \<lparr> INTERVAL_SECONDS := PyInt (10 ^ 30) \<rparr>"

section \<open>Properties\<close>

subsection \<open>The model in terms of the vocabulary\<close>

lemma globals_emit: "globals (emit ev s) = globals s"
  by (simp add: emit_def)

lemma globals_print: "globals (print l s) = globals s"
  by (simp add: print_def emit_def)

lemma try_body_eq:
  "try_body w i s = (s\<lparr>trace := trace s @ attempt (globals s) w i\<rparr>, raised (sound w i))"
proof (cases "sound w i")
  case Returns
  then show ?thesis
    by (simp add: try_body_def status_print_def raises_at_def attempt_def using_line_def
        mode_call_def winsound_PlaySound_def winsound_Beep_def print_def emit_def raised_def)
next
  case (Raises e)
  then show ?thesis
    by (cases "raising_step w i")
       (simp_all add: try_body_def status_print_def raises_at_def attempt_def using_line_def
         mode_call_def winsound_PlaySound_def winsound_Beep_def print_def emit_def raised_def)
qed

lemma play_eq:
  "play_windows_notification w i s =
     (s\<lparr>trace := trace s @ attempt (globals s) w i @ after_attempt (sound w i)\<rparr>,
      (case sound w i of Returns \<Rightarrow> None
       | Raises e \<Rightarrow> if isinstance_Exception e then None else Some e))"
  by (cases "sound w i"; cases "raised (sound w i)")
     (auto simp: play_windows_notification_def try_body_eq raised_def after_attempt_def
      failure_lines_def print_def emit_def elim: isinstance_RuntimeError.elims)


lemma isinstance_cases: "isinstance_Exception e \<or> isinstance_KeyboardInterrupt e"
  by (cases e) simp

lemma interrupt_not_Exception: "isinstance_KeyboardInterrupt e \<Longrightarrow> \<not> isinstance_Exception e"
  by (cases e) simp

text \<open>The loop is unfolded one iteration at a time, by the lemmas below.\<close>

declare loop.simps(2) [simp del]

lemma loop_step_completes:
  assumes "completes w i"
  shows "loop w (Suc n) i s = loop w n (Suc i) (s\<lparr>trace := trace s @ cycle (globals s) w i\<rparr>)"
  using assms
  by (cases "sound w i")
     (simp_all add: loop.simps(2) completes_def contained_def play_eq time_sleep_def raised_def
       cycle_def wait_step_def print_def emit_def)

lemma cycles_0: "cycles c w i 0 = []"
  by (simp add: cycles_def)

lemma cycles_Suc_left: "cycles c w i (Suc k) = cycle c w i @ cycles c w (Suc i) k"
  by (simp add: cycles_def upt_rec)

lemma loop_completes:
  "(\<forall>j<k. completes w (i + j)) \<Longrightarrow>
   loop w (k + n) i s = loop w n (i + k) (s\<lparr>trace := trace s @ cycles (globals s) w i k\<rparr>)"
proof (induction k arbitrary: i s)
  case 0
  show ?case by (simp add: cycles_0)
next
  case (Suc k)
  from Suc.prems have first: "completes w i" by force
  from Suc.prems have rest: "\<forall>j<k. completes w (Suc i + j)" by force
  have "loop w (Suc k + n) i s =
          loop w (k + n) (Suc i) (s\<lparr>trace := trace s @ cycle (globals s) w i\<rparr>)"
    by (simp only: add_Suc loop_step_completes [OF first])
  also have "\<dots> = loop w n (Suc i + k)
          (s\<lparr>trace := trace s @ cycle (globals s) w i @ cycles (globals s) w (Suc i) k\<rparr>)"
    using Suc.IH [OF rest, of "s\<lparr>trace := trace s @ cycle (globals s) w i\<rparr>"] by simp
  finally show ?case by (simp add: cycles_Suc_left)
qed

lemma loop_sound_escapes:
  assumes "sound w i = Raises e" and "\<not> isinstance_Exception e"
  shows "loop w (Suc n) i s = (s\<lparr>trace := trace s @ attempt (globals s) w i\<rparr>, Some e)"
proof -
  from assms have "after_attempt (sound w i) = []"
    by (cases e) (simp add: after_attempt_def failure_lines_def)
  with assms show ?thesis by (simp add: loop.simps(2) play_eq)
qed

lemma loop_sleep_raises:
  assumes "contained (sound w i)" and "sleeps w i = Raises e"
  shows "loop w (Suc n) i s = (s\<lparr>trace := trace s @ cycle (globals s) w i\<rparr>, Some e)"
  using assms
  by (cases "sound w i")
     (simp_all add: loop.simps(2) contained_def play_eq time_sleep_def raised_def cycle_def
       wait_step_def print_def emit_def)

lemma main_block_eq:
  "main_block w fuel s =
     (case loop w fuel 0 (s\<lparr>trace := trace s @ banner (globals s)\<rparr>) of
        (s5, None) \<Rightarrow> (s5, None)
      | (s5, Some e) \<Rightarrow>
          if isinstance_KeyboardInterrupt e then
            (s5\<lparr>trace := trace s5 @ stopped_by_user\<rparr>, Some (Exited 0))
          else if isinstance_Exception e then
            (s5\<lparr>trace := trace s5 @ unexpected_error e\<rparr>, Some (Exited 0))
          else (s5\<lparr>trace := trace s5 @ [Print [Lit ''Exiting.'']]\<rparr>, Some (Uncaught e)))"
  by (simp add: main_block_def Let_def banner_def print_def emit_def stopped_by_user_def
      unexpected_error_def split: prod.splits option.splits)

lemma program_run:
  assumes "\<not> interval_rejected (INTERVAL_SECONDS c)"
  shows "program ''Windows'' ''__main__'' c w fuel =
           (case main_block w fuel \<lparr>globals = c, trace = []\<rparr> of (s', t) \<Rightarrow> (trace s', t))"
  using assms by (simp add: program_def Let_def)

lemma positive_accepted: "py_positive v \<Longrightarrow> \<not> interval_rejected v"
  by (induction v rule: py_positive.induct) (simp_all add: interval_rejected_def)

lemma globals_play: "globals (fst (play_windows_notification w i s)) = globals s"
  by (simp add: play_eq)

lemma globals_loop: "globals (fst (loop w n i s)) = globals s"
proof (induction n arbitrary: i s)
  case 0
  show ?case by simp
next
  case (Suc n)
  show ?case
    by (simp add: loop.simps(2) play_eq time_sleep_def print_def emit_def Suc.IH
        split: outcome.splits option.splits prod.splits)
qed


lemma program_loop:
  assumes "\<not> interval_rejected (INTERVAL_SECONDS c)"
  shows "program ''Windows'' ''__main__'' c w fuel =
     (case loop w fuel 0 \<lparr>globals = c, trace = banner c\<rparr> of
        (s5, None) \<Rightarrow> (trace s5, None)
      | (s5, Some e) \<Rightarrow>
          if isinstance_KeyboardInterrupt e then (trace s5 @ stopped_by_user, Some (Exited 0))
          else if isinstance_Exception e then (trace s5 @ unexpected_error e, Some (Exited 0))
          else (trace s5 @ [Print [Lit ''Exiting.'']], Some (Uncaught e)))"
  by (simp add: program_run [OF assms] main_block_eq split: prod.splits option.splits)

lemma run_prefix:
  assumes "\<forall>j<k. completes w j"
  shows "loop w (k + n) 0 \<lparr>globals = c, trace = banner c\<rparr> =
         loop w n k \<lparr>globals = c, trace = banner c @ cycles c w 0 k\<rparr>"
  using assms loop_completes [of k w 0 n "\<lparr>globals = c, trace = banner c\<rparr>"] by simp

lemma platform_exit:
  "system \<noteq> ''Windows'' \<Longrightarrow> program system name c w fuel =
     ([Print [Lit ''Error: This script uses 'winsound' and is designed for Windows only.'']],
      Some (Exited 1))"
  by (simp add: program_def)

lemma rejected_iff:
  "interval_rejected v \<longleftrightarrow> \<not> isinstance_int_float v \<or> py_le_zero v = Some True"
  by (cases v) (simp_all add: interval_rejected_def)

lemma sound_calls_attempt:
  "filter is_sound_call (attempt c w i) = (if reaches_call w i then [mode_call c] else [])"
  by (auto simp: attempt_def reaches_call_def using_line_def mode_call_def)

lemma sound_calls_after_attempt: "filter is_sound_call (after_attempt r) = []"
  by (cases r) (simp_all add: after_attempt_def failure_lines_def)

lemma sound_calls_wait_step: "filter is_sound_call (wait_step c) = []"
  by (simp add: wait_step_def)

lemma sound_calls_cycle:
  "filter is_sound_call (cycle c w i) = (if reaches_call w i then [mode_call c] else [])"
  by (simp add: cycle_def sound_calls_attempt sound_calls_after_attempt sound_calls_wait_step)

lemma attempt_reaches_call:
  "reaches_call w i \<Longrightarrow>
     attempt c w i =
       [Print [FmtTime (now w i) ''%Y-%m-%d %H:%M:%S'', Lit '' - Playing notification...''],
        using_line c, mode_call c]"
  by (simp add: attempt_def reaches_call_def)

lemma from_config_attempt: "list_all (from_config c) (attempt c w i)"
  by (simp add: attempt_def using_line_def mode_call_def)

lemma from_config_after_attempt: "list_all (from_config c) (after_attempt r)"
  by (cases r) (simp_all add: after_attempt_def failure_lines_def)

lemma from_config_wait_step: "list_all (from_config c) (wait_step c)"
  by (simp add: wait_step_def)

lemma from_config_cycle: "list_all (from_config c) (cycle c w i)"
  by (simp add: cycle_def from_config_attempt from_config_after_attempt from_config_wait_step)

lemma iteration_cases:
  obtains (completes) "completes w i"
  | (escapes) e where "sound w i = Raises e" and "\<not> isinstance_Exception e"
  | (sleep_raises) e where "contained (sound w i)" and "sleeps w i = Raises e"
proof (cases "contained (sound w i)")
  case True
  then show ?thesis
    by (cases "sleeps w i") (auto simp: completes_def intro: completes sleep_raises)
next
  case False
  then show ?thesis
    by (cases "sound w i") (auto simp: contained_def intro: escapes)
qed

lemma loop_trace:
  "\<exists>rest. trace (fst (loop w n i s)) = trace s @ rest \<and> list_all (from_config (globals s)) rest"
proof (induction n arbitrary: i s)
  case 0
  show ?case by simp
next
  case (Suc n)
  show ?case
  proof (cases rule: iteration_cases [of w i])
    case completes
    obtain rest where
      "trace (fst (loop w n (Suc i) (s\<lparr>trace := trace s @ cycle (globals s) w i\<rparr>))) =
         (trace s @ cycle (globals s) w i) @ rest"
      and "list_all (from_config (globals s)) rest"
      using Suc.IH [of "Suc i" "s\<lparr>trace := trace s @ cycle (globals s) w i\<rparr>"] by auto
    then show ?thesis
      by (simp add: loop_step_completes [OF completes] from_config_cycle)
  next
    case (escapes e)
    then show ?thesis
      by (simp add: loop_sound_escapes from_config_attempt)
  next
    case (sleep_raises e)
    then show ?thesis
      by (simp add: loop_sleep_raises from_config_cycle)
  qed
qed

lemma loop_first_attempt:
  "\<exists>rest. trace (fst (loop w (Suc n) i s)) = trace s @ attempt (globals s) w i @ rest"
proof (cases rule: iteration_cases [of w i])
  case completes
  obtain rest where
    "trace (fst (loop w n (Suc i) (s\<lparr>trace := trace s @ cycle (globals s) w i\<rparr>))) =
       (trace s @ cycle (globals s) w i) @ rest"
    using loop_trace [of w n "Suc i" "s\<lparr>trace := trace s @ cycle (globals s) w i\<rparr>"] by auto
  then show ?thesis
    by (simp add: loop_step_completes [OF completes] cycle_def)
next
  case (escapes e)
  then show ?thesis by (simp add: loop_sound_escapes)
next
  case (sleep_raises e)
  then show ?thesis by (simp add: loop_sleep_raises cycle_def)
qed

lemma program_extends_loop:
  assumes "\<not> interval_rejected (INTERVAL_SECONDS c)"
  shows "\<exists>more r. program ''Windows'' ''__main__'' c w fuel =
           (trace (fst (loop w fuel 0 \<lparr>globals = c, trace = banner c\<rparr>)) @ more, r)"
  by (cases "loop w fuel 0 \<lparr>globals = c, trace = banner c\<rparr>")
     (simp add: program_loop [OF assms] split: option.splits)

lemma failure_lines_nonempty:
  "isinstance_Exception e \<Longrightarrow>
     failure_lines e \<noteq> [] \<and> (\<exists>l. hd (failure_lines e) = Print l \<and> FmtExc e \<in> set l)"
  by (simp add: failure_lines_def)

lemma program_events: "list_all (from_config c) (fst (program system name c w fuel))"
proof (cases "system = ''Windows'' \<and> \<not> interval_rejected (INTERVAL_SECONDS c) \<and> name = ''__main__''")
  case False
  then show ?thesis
    by (auto simp: program_def Let_def print_def emit_def)
next
  case True
  then have ok: "\<not> interval_rejected (INTERVAL_SECONDS c)" by simp
  obtain rest where
    "trace (fst (loop w fuel 0 \<lparr>globals = c, trace = banner c\<rparr>)) = banner c @ rest"
    and "list_all (from_config c) rest"
    using loop_trace [of w fuel 0 "\<lparr>globals = c, trace = banner c\<rparr>"] by auto
  then show ?thesis
    using True
    by (cases "loop w fuel 0 \<lparr>globals = c, trace = banner c\<rparr>")
       (simp add: program_loop [OF ok] banner_def stopped_by_user_def unexpected_error_def
         split: option.splits)
qed

lemma loop_exit:
  "loop w n i s = (s', Some x) \<Longrightarrow>
     \<exists>j. i \<le> j \<and> j < i + n \<and>
       ((sound w j = Raises x \<and> \<not> isinstance_Exception x)
        \<or> (contained (sound w j) \<and> sleeps w j = Raises x))"
proof (induction n arbitrary: i s)
  case 0
  then show ?case by simp
next
  case (Suc n)
  show ?case
  proof (cases rule: iteration_cases [of w i])
    case completes
    with Suc.prems have
      "loop w n (Suc i) (s\<lparr>trace := trace s @ cycle (globals s) w i\<rparr>) = (s', Some x)"
      by (simp add: loop_step_completes)
    from Suc.IH [OF this] obtain j where "Suc i \<le> j" "j < Suc i + n"
      "(sound w j = Raises x \<and> \<not> isinstance_Exception x)
        \<or> (contained (sound w j) \<and> sleeps w j = Raises x)"
      by blast
    then show ?thesis
      by (intro exI [of _ j]) simp
  next
    case (escapes e)
    with Suc.prems have "x = e" by (simp add: loop_sound_escapes)
    with escapes show ?thesis by (intro exI [of _ i]) simp
  next
    case (sleep_raises e)
    with Suc.prems have "x = e" by (simp add: loop_sleep_raises)
    with sleep_raises show ?thesis by (intro exI [of _ i]) simp
  qed
qed

lemma globals_main_block: "globals (fst (main_block w n s)) = globals s"
proof -
  have "globals (fst (loop w n 0 (s\<lparr>trace := trace s @ banner (globals s)\<rparr>))) = globals s"
    by (simp add: globals_loop)
  then show ?thesis
    by (cases "loop w n 0 (s\<lparr>trace := trace s @ banner (globals s)\<rparr>)")
       (simp add: main_block_eq split: option.splits)
qed

subsection \<open>Startup\<close>

text \<open>
  Claim C3 (startup interval validation). Whenever \<open>INTERVAL_SECONDS\<close> is not an
  instance of \<open>int\<close> or \<open>float\<close>, or is \<open><= 0\<close>, the run ends with exit status 1
  and its whole history is one printed error line: no sound call, no "Waiting" line, no
  sleep. On Windows that line is the configuration error; elsewhere the platform check,
  which comes first, has already ended the run with its own error line.
\<close>

theorem startup_interval_validation:
  assumes "\<not> isinstance_int_float (INTERVAL_SECONDS c) \<or> py_le_zero (INTERVAL_SECONDS c) = Some True"
  shows "program system name c w fuel =
           ([if system = ''Windows''
             then Print [Lit ''Error: INTERVAL_SECONDS must be a positive number. Found: '',
                         FmtVal (INTERVAL_SECONDS c)]
             else Print [Lit ''Error: This script uses 'winsound' and is designed for Windows only.'']],
            Some (Exited 1))"
proof (cases "system = ''Windows''")
  case True
  from assms have "interval_rejected (INTERVAL_SECONDS c)" by (simp add: rejected_iff)
  with True show ?thesis by (simp add: program_def Let_def print_def emit_def)
next
  case False
  then show ?thesis by (simp add: platform_exit)
qed

text \<open>The theorem at an interval of 0 and at a string.\<close>

theorem startup_interval_validation_witness:
  "program ''Windows'' ''__main__'' (shipped_config\<lparr>INTERVAL_SECONDS := PyInt 0\<rparr>) calm 3 =
     ([Print [Lit ''Error: INTERVAL_SECONDS must be a positive number. Found: '', FmtVal (PyInt 0)]],
      Some (Exited 1))
   \<and> program ''Windows'' ''__main__'' (shipped_config\<lparr>INTERVAL_SECONDS := PyStr ''300''\<rparr>) calm 3 =
     ([Print [Lit ''Error: INTERVAL_SECONDS must be a positive number. Found: '', FmtVal (PyStr ''300'')]],
      Some (Exited 1))"
  using startup_interval_validation [of "shipped_config\<lparr>INTERVAL_SECONDS := PyInt 0\<rparr>" "''Windows''" "''__main__''" calm 3]
    startup_interval_validation [of "shipped_config\<lparr>INTERVAL_SECONDS := PyStr ''300''\<rparr>" "''Windows''" "''__main__''" calm 3]
  by simp

text \<open>
  Claim C4 (platform guard). When \<open>platform.system()\<close> is not \<open>Windows\<close>, the run
  prints the platform error and exits with status 1, whatever the configuration is: the
  interval is not validated (a rejected interval gives no configuration error), the mode
  flags are not read, and no banner, sound call or sleep happens.
\<close>

theorem platform_guard:
  assumes "system \<noteq> ''Windows''"
  shows "program system name c w fuel =
           ([Print [Lit ''Error: This script uses 'winsound' and is designed for Windows only.'']],
            Some (Exited 1))"
  using assms by (rule platform_exit)

theorem platform_guard_witness:
  "program ''Linux'' ''__main__'' (shipped_config\<lparr>INTERVAL_SECONDS := PyInt 0, USE_ALIAS := False\<rparr>) calm 3 =
     ([Print [Lit ''Error: This script uses 'winsound' and is designed for Windows only.'']],
      Some (Exited 1))"
  using platform_guard [of "''Linux''" "''__main__''" "shipped_config\<lparr>INTERVAL_SECONDS := PyInt 0, USE_ALIAS := False\<rparr>" calm 3]
  by simp

subsection \<open>The loop\<close>

text \<open>
  Claim C6, as the code has it (iteration structure). For a positive interval, as long as
  every iteration so far has run to its end (no interrupt, no failing sleep), the run after
  \<open>n\<close> iterations is still in the loop and its history is the banner followed by
  \<open>n\<close> cycles. Each cycle is, in this order: the playback attempt, the lines of a caught
  failure if there was one, the "Waiting for N seconds" line, and \<open>time.sleep\<close> called
  with exactly \<open>INTERVAL_SECONDS\<close>. An attempt that reaches the call is the timestamped
  "Playing notification" line, the line naming the resource and the call of the sound
  primitive, and its cycle holds exactly that one sound call; an attempt stopped by a
  raising status print makes no sound call in its cycle.
\<close>

theorem iteration_structure:
  assumes "py_positive (INTERVAL_SECONDS c)" and "\<forall>j<n. completes w j"
  shows "program ''Windows'' ''__main__'' c w n = (banner c @ cycles c w 0 n, None)
       \<and> (\<forall>j. cycle c w j =
              attempt c w j
              @ after_attempt (sound w j)
              @ [Print [Lit ''Waiting for '', FmtVal (INTERVAL_SECONDS c), Lit '' seconds...''],
                 Sleep (INTERVAL_SECONDS c)])
       \<and> (\<forall>j. reaches_call w j \<longrightarrow>
              attempt c w j =
                [Print [FmtTime (now w j) ''%Y-%m-%d %H:%M:%S'', Lit '' - Playing notification...''],
                 using_line c, mode_call c]
              \<and> filter is_sound_call (cycle c w j) = [mode_call c])
       \<and> (\<forall>j. \<not> reaches_call w j \<longrightarrow> filter is_sound_call (cycle c w j) = [])"
proof -
  have ok: "\<not> interval_rejected (INTERVAL_SECONDS c)"
    using assms(1) by (rule positive_accepted)
  have "loop w n 0 \<lparr>globals = c, trace = banner c\<rparr> =
        (\<lparr>globals = c, trace = banner c @ cycles c w 0 n\<rparr>, None)"
    using run_prefix [OF assms(2), of 0 c] by simp
  then have "program ''Windows'' ''__main__'' c w n = (banner c @ cycles c w 0 n, None)"
    by (simp add: program_loop [OF ok])
  moreover have "cycle c w j =
      attempt c w j
      @ after_attempt (sound w j)
      @ [Print [Lit ''Waiting for '', FmtVal (INTERVAL_SECONDS c), Lit '' seconds...''],
         Sleep (INTERVAL_SECONDS c)]" for j
    by (simp add: cycle_def wait_step_def)
  moreover have "attempt c w j =
      [Print [FmtTime (now w j) ''%Y-%m-%d %H:%M:%S'', Lit '' - Playing notification...''],
       using_line c, mode_call c]
      \<and> filter is_sound_call (cycle c w j) = [mode_call c]" if "reaches_call w j" for j
    using that by (simp add: attempt_reaches_call sound_calls_cycle)
  moreover have "filter is_sound_call (cycle c w j) = []" if "\<not> reaches_call w j" for j
    using that by (simp add: sound_calls_cycle)
  ultimately show ?thesis
    by blast
qed

text \<open>Three iterations with the shipped constants, the device busy in the second.\<close>

theorem iteration_structure_witness:
  "program ''Windows'' ''__main__'' shipped_config busy_once 3 =
     (banner shipped_config @ cycles shipped_config busy_once 0 3, None)
   \<and> filter is_sound_call (cycles shipped_config busy_once 0 3) =
       [PlaySound ''SystemAsterisk'' 65536, PlaySound ''SystemAsterisk'' 65536,
        PlaySound ''SystemAsterisk'' 65536]"
proof -
  have pos: "py_positive (INTERVAL_SECONDS shipped_config)"
    by (simp add: shipped_config_def)
  have run: "\<forall>j<3. completes busy_once j"
    by (simp add: completes_def contained_def busy_once_def calm_def)
  have reach: "reaches_call busy_once j" for j
    by (simp add: reaches_call_def raises_at_def busy_once_def calm_def)
  have three: "cycles shipped_config busy_once 0 3 =
      cycle shipped_config busy_once 0 @ cycle shipped_config busy_once (Suc 0)
      @ cycle shipped_config busy_once (Suc (Suc 0))"
    by (simp add: cycles_def upt_rec numeral_3_eq_3)
  have call: "mode_call shipped_config = PlaySound ''SystemAsterisk'' 65536"
    by (simp add: mode_call_def shipped_config_def SND_ALIAS_def)
  note inst = iteration_structure [OF pos run]
  from inst have a: "program ''Windows'' ''__main__'' shipped_config busy_once 3 =
     (banner shipped_config @ cycles shipped_config busy_once 0 3, None)"
    by (rule conjunct1)
  from inst reach have b: "filter is_sound_call (cycle shipped_config busy_once j) =
     [mode_call shipped_config]" for j
    by blast
  show ?thesis
    unfolding three by (simp add: a [unfolded three] b call)
qed

text \<open>
  Against claim C6 as stated. With the positive interval \<open>10 ^ 30\<close> and a sleep that
  raises \<open>OverflowError\<close>, the run ends after one iteration and without any interrupt.
  With an alias that the console cannot encode, an iteration runs to its end (its
  "Waiting" line and its sleep) and makes no sound call.
\<close>

theorem iteration_structure_counterexample:
  "py_positive (INTERVAL_SECONDS far_interval)
   \<and> program ''Windows'' ''__main__'' far_interval sleep_fails 5 =
       (banner far_interval
        @ [Print [FmtTime noon ''%Y-%m-%d %H:%M:%S'', Lit '' - Playing notification...''],
           Print [Lit ''(Using alias: '', FmtStr ''SystemAsterisk'', Lit '')''],
           PlaySound ''SystemAsterisk'' 65536,
           Print [Lit ''Waiting for '', FmtVal (PyInt (10 ^ 30)), Lit '' seconds...''],
           Sleep (PyInt (10 ^ 30)),
           Print [Lit ''\<newline>--- An Unexpected Error Occurred ---''],
           Print [Lit ''Error details: '',
                  FmtExc (PyExc OverflowError ''timestamp too large to convert to C PyTime_t'')],
           Print [Lit ''Exiting.'']],
        Some (Exited 0))
   \<and> py_positive (INTERVAL_SECONDS accented_alias)
   \<and> program ''Windows'' ''__main__'' accented_alias ascii_console 1 =
       (banner accented_alias
        @ [Print [FmtTime noon ''%Y-%m-%d %H:%M:%S'', Lit '' - Playing notification...''],
           Print [Lit ''\<newline>An unexpected error occurred during sound playback: '',
                  FmtExc (PyExc UnicodeEncodeError ''ordinal not in range(128)'')],
           Print [Lit ''Waiting for '', FmtVal (PyInt 300), Lit '' seconds...''],
           Sleep (PyInt 300)],
        None)"
proof -
  have pos: "py_positive (INTERVAL_SECONDS far_interval)"
    "py_positive (INTERVAL_SECONDS accented_alias)"
    by (simp_all add: far_interval_def accented_alias_def shipped_config_def)
  have quiet: "contained (sound sleep_fails 0)"
    by (simp add: contained_def sleep_fails_def calm_def)
  have fails: "sleeps sleep_fails 0 =
      Raises (PyExc OverflowError ''timestamp too large to convert to C PyTime_t'')"
    by (simp add: sleep_fails_def calm_def)
  have "loop sleep_fails (Suc 4) 0 \<lparr>globals = far_interval, trace = banner far_interval\<rparr> =
      (\<lparr>globals = far_interval,
        trace = banner far_interval @ cycle far_interval sleep_fails 0\<rparr>,
       Some (PyExc OverflowError ''timestamp too large to convert to C PyTime_t''))"
    using loop_sleep_raises [OF quiet fails, of 4
        "\<lparr>globals = far_interval, trace = banner far_interval\<rparr>"]
    by simp
  then have a: "program ''Windows'' ''__main__'' far_interval sleep_fails 5 =
      (banner far_interval @ cycle far_interval sleep_fails 0
         @ unexpected_error (PyExc OverflowError ''timestamp too large to convert to C PyTime_t''),
       Some (Exited 0))"
    using program_loop [OF positive_accepted [OF pos(1)], of sleep_fails "Suc 4"]
    by simp
  have "completes ascii_console 0"
    by (simp add: completes_def contained_def ascii_console_def calm_def)
  then have "loop ascii_console (Suc 0) 0 \<lparr>globals = accented_alias, trace = banner accented_alias\<rparr> =
      (\<lparr>globals = accented_alias,
        trace = banner accented_alias @ cycle accented_alias ascii_console 0\<rparr>, None)"
    using loop_step_completes [of ascii_console 0 0
        "\<lparr>globals = accented_alias, trace = banner accented_alias\<rparr>"]
    by simp
  then have b: "program ''Windows'' ''__main__'' accented_alias ascii_console 1 =
      (banner accented_alias @ cycle accented_alias ascii_console 0, None)"
    using program_loop [OF positive_accepted [OF pos(2)], of ascii_console "Suc 0"]
    by simp
  have c1: "cycle far_interval sleep_fails 0 =
      [Print [FmtTime noon ''%Y-%m-%d %H:%M:%S'', Lit '' - Playing notification...''],
       Print [Lit ''(Using alias: '', FmtStr ''SystemAsterisk'', Lit '')''],
       PlaySound ''SystemAsterisk'' 65536,
       Print [Lit ''Waiting for '', FmtVal (PyInt (10 ^ 30)), Lit '' seconds...''],
       Sleep (PyInt (10 ^ 30))]"
    by (simp add: cycle_def attempt_def raises_at_def after_attempt_def wait_step_def
        using_line_def mode_call_def sleep_fails_def calm_def far_interval_def
        shipped_config_def SND_ALIAS_def)
  have c2: "cycle accented_alias ascii_console 0 =
      [Print [FmtTime noon ''%Y-%m-%d %H:%M:%S'', Lit '' - Playing notification...''],
       Print [Lit ''\<newline>An unexpected error occurred during sound playback: '',
              FmtExc (PyExc UnicodeEncodeError ''ordinal not in range(128)'')],
       Print [Lit ''Waiting for '', FmtVal (PyInt 300), Lit '' seconds...''],
       Sleep (PyInt 300)]"
    by (simp add: cycle_def attempt_def raises_at_def after_attempt_def failure_lines_def
        wait_step_def ascii_console_def calm_def accented_alias_def shipped_config_def)
  from pos a b show ?thesis
    unfolding c1 c2 by (simp add: unexpected_error_def)
qed

text \<open>
  Claim C1 (failure isolation). When the playback attempt of iteration \<open>k\<close> (its sound
  call, or a status print before it) raises an instance of \<open>Exception\<close>,
  \<open>play_windows_notification\<close> returns normally after
  printing lines that begin with a message holding the exception; the loop then prints
  the "Waiting" line, sleeps, and, the sleep returning, makes the playback attempt of
  iteration \<open>k + 1\<close>.
\<close>

theorem failure_isolation:
  assumes "\<not> interval_rejected (INTERVAL_SECONDS c)" and "\<forall>j<k. completes w j"
    and "sound w k = Raises e" and "isinstance_Exception e" and "sleeps w k = Returns"
  shows "play_windows_notification w k s =
           (s\<lparr>trace := trace s @ attempt (globals s) w k @ failure_lines e\<rparr>, None)
       \<and> failure_lines e \<noteq> []
       \<and> (\<exists>l. hd (failure_lines e) = Print l \<and> FmtExc e \<in> set l)
       \<and> (\<exists>rest r. program ''Windows'' ''__main__'' c w (Suc (Suc (k + n))) =
             (banner c @ cycles c w 0 k @ attempt c w k @ failure_lines e @ wait_step c
                @ attempt c w (Suc k) @ rest, r))"
proof -
  have caught: "play_windows_notification w k s =
      (s\<lparr>trace := trace s @ attempt (globals s) w k @ failure_lines e\<rparr>, None)"
    using assms(3,4) by (simp add: play_eq after_attempt_def)
  have this_one: "completes w k"
    using assms(3,4,5) by (simp add: completes_def contained_def)
  have cyc: "cycle c w k = attempt c w k @ failure_lines e @ wait_step c"
    using assms(3) by (simp add: cycle_def after_attempt_def)
  let ?s = "\<lparr>globals = c, trace = banner c @ cycles c w 0 k\<rparr>"
  let ?s' = "\<lparr>globals = c, trace = banner c @ cycles c w 0 k @ cycle c w k\<rparr>"
  have "loop w (k + Suc (Suc n)) 0 \<lparr>globals = c, trace = banner c\<rparr> = loop w (Suc (Suc n)) k ?s"
    using assms(2) by (rule run_prefix)
  also have "\<dots> = loop w (Suc n) (Suc k) ?s'"
    by (simp only: loop_step_completes [OF this_one]) simp
  finally have run: "loop w (Suc (Suc (k + n))) 0 \<lparr>globals = c, trace = banner c\<rparr> =
      loop w (Suc n) (Suc k) ?s'"
    by simp
  obtain rest where next_one:
    "trace (fst (loop w (Suc n) (Suc k) ?s')) = trace ?s' @ attempt (globals ?s') w (Suc k) @ rest"
    using loop_first_attempt [of w n "Suc k" ?s'] by blast
  obtain more r where
    "program ''Windows'' ''__main__'' c w (Suc (Suc (k + n))) =
       (trace (fst (loop w (Suc (Suc (k + n))) 0 \<lparr>globals = c, trace = banner c\<rparr>)) @ more, r)"
    using program_extends_loop [OF assms(1)] by blast
  then have "program ''Windows'' ''__main__'' c w (Suc (Suc (k + n))) =
      (banner c @ cycles c w 0 k @ attempt c w k @ failure_lines e @ wait_step c
         @ attempt c w (Suc k) @ (rest @ more), r)"
    by (simp only: run next_one) (simp add: cyc)
  then have "\<exists>rest r. program ''Windows'' ''__main__'' c w (Suc (Suc (k + n))) =
      (banner c @ cycles c w 0 k @ attempt c w k @ failure_lines e @ wait_step c
         @ attempt c w (Suc k) @ rest, r)"
    by blast
  with caught failure_lines_nonempty [OF assms(4)] show ?thesis by blast
qed

text \<open>The device is busy in iteration 1; iteration 2 still makes its attempt.\<close>

theorem failure_isolation_witness:
  "play_windows_notification busy_once 1 \<lparr>globals = shipped_config, trace = []\<rparr> =
     (\<lparr>globals = shipped_config,
       trace = attempt shipped_config busy_once 1
         @ [Print [Lit ''\<newline>Error playing sound with winsound: '',
                   FmtExc (PyExc RuntimeError ''Failed to play sound'')],
            Print [Lit ''Check if the sound alias/file exists or if another sound is playing.'']]\<rparr>,
      None)
   \<and> (\<exists>rest r. program ''Windows'' ''__main__'' shipped_config busy_once 3 =
         (banner shipped_config @ cycles shipped_config busy_once 0 1
            @ attempt shipped_config busy_once 1
            @ [Print [Lit ''\<newline>Error playing sound with winsound: '',
                      FmtExc (PyExc RuntimeError ''Failed to play sound'')],
               Print [Lit ''Check if the sound alias/file exists or if another sound is playing.'']]
            @ wait_step shipped_config @ attempt shipped_config busy_once 2 @ rest, r))"
proof -
  let ?e = "PyExc RuntimeError ''Failed to play sound''"
  have h1: "\<not> interval_rejected (INTERVAL_SECONDS shipped_config)"
    by (simp add: shipped_config_def interval_rejected_def)
  have h2: "\<forall>j<1. completes busy_once j"
    by (simp add: completes_def contained_def busy_once_def calm_def)
  have h3: "sound busy_once 1 = Raises ?e"
    by (simp add: busy_once_def calm_def)
  have h4: "isinstance_Exception ?e" by simp
  have h5: "sleeps busy_once 1 = Returns"
    by (simp add: busy_once_def calm_def)
  have lines: "failure_lines ?e =
      [Print [Lit ''\<newline>Error playing sound with winsound: '', FmtExc ?e],
       Print [Lit ''Check if the sound alias/file exists or if another sound is playing.'']]"
    by (simp add: failure_lines_def)
  have three: "Suc (Suc (1 + 0)) = (3::nat)" by simp
  from failure_isolation [OF h1 h2 h3 h4 h5, of "\<lparr>globals = shipped_config, trace = []\<rparr>" 0]
  show ?thesis
    unfolding lines three by (simp add: numeral_2_eq_2)
qed

subsection \<open>Leaving the loop\<close>

text \<open>
  Claim C2 (interrupt shutdown). Let the first \<open>k\<close> iterations run to their end and
  let a \<open>KeyboardInterrupt\<close> arrive in iteration \<open>k\<close>, during the playback attempt
  or during the sleep. Then every run with more than \<open>k\<close> units of fuel ends, with exit
  status 0, and its history stops at the interrupted statement followed by exactly two lines:
  "Stopped by User", then "Exiting.". Nothing follows them, so no playback is attempted
  after the interrupt.
\<close>

theorem interrupt_shutdown:
  assumes "\<not> interval_rejected (INTERVAL_SECONDS c)" and "\<forall>j<k. completes w j"
    and "k < fuel" and "isinstance_KeyboardInterrupt e"
  shows "(sound w k = Raises e \<longrightarrow>
            program ''Windows'' ''__main__'' c w fuel =
              (banner c @ cycles c w 0 k @ attempt c w k
                 @ [Print [Lit ''\<newline>--- Notification Script Stopped by User ---''],
                    Print [Lit ''Exiting.'']],
               Some (Exited 0)))
       \<and> (contained (sound w k) \<and> sleeps w k = Raises e \<longrightarrow>
            program ''Windows'' ''__main__'' c w fuel =
              (banner c @ cycles c w 0 k @ attempt c w k @ after_attempt (sound w k) @ wait_step c
                 @ [Print [Lit ''\<newline>--- Notification Script Stopped by User ---''],
                    Print [Lit ''Exiting.'']],
               Some (Exited 0)))"
proof -
  from assms(3) have "\<exists>m. fuel = Suc (k + m)"
    by (rule less_imp_Suc_add)
  then obtain m where fuel: "fuel = k + Suc m"
    by auto
  let ?s = "\<lparr>globals = c, trace = banner c @ cycles c w 0 k\<rparr>"
  have run: "loop w fuel 0 \<lparr>globals = c, trace = banner c\<rparr> = loop w (Suc m) k ?s"
    unfolding fuel using assms(2) by (rule run_prefix)
  have no: "\<not> isinstance_Exception e"
    using assms(4) by (rule interrupt_not_Exception)
  have in_sound: "program ''Windows'' ''__main__'' c w fuel =
      (banner c @ cycles c w 0 k @ attempt c w k @ stopped_by_user, Some (Exited 0))"
    if "sound w k = Raises e"
    using assms(4) by (simp add: program_loop [OF assms(1)] run loop_sound_escapes [OF that no])
  have in_sleep: "program ''Windows'' ''__main__'' c w fuel =
      (banner c @ cycles c w 0 k @ cycle c w k @ stopped_by_user, Some (Exited 0))"
    if "contained (sound w k)" and "sleeps w k = Raises e"
    using assms(4) by (simp add: program_loop [OF assms(1)] run loop_sleep_raises [OF that])
  from in_sound in_sleep show ?thesis
    by (simp add: stopped_by_user_def cycle_def)
qed

text \<open>Ctrl+C during the sleep of iteration 1, and during its sound call.\<close>

theorem interrupt_shutdown_witness:
  "program ''Windows'' ''__main__'' shipped_config interrupt_in_sleep 7 =
     (banner shipped_config @ cycles shipped_config interrupt_in_sleep 0 1
        @ attempt shipped_config interrupt_in_sleep 1 @ wait_step shipped_config
        @ [Print [Lit ''\<newline>--- Notification Script Stopped by User ---''],
           Print [Lit ''Exiting.'']],
      Some (Exited 0))
   \<and> program ''Windows'' ''__main__'' shipped_config interrupt_in_sound 7 =
     (banner shipped_config @ cycles shipped_config interrupt_in_sound 0 1
        @ attempt shipped_config interrupt_in_sound 1
        @ [Print [Lit ''\<newline>--- Notification Script Stopped by User ---''],
           Print [Lit ''Exiting.'']],
      Some (Exited 0))"
proof -
  let ?e = "PyExc KeyboardInterrupt []"
  have h1: "\<not> interval_rejected (INTERVAL_SECONDS shipped_config)"
    by (simp add: shipped_config_def interval_rejected_def)
  have h2: "\<forall>j<1. completes interrupt_in_sleep j"
    by (simp add: completes_def contained_def interrupt_in_sleep_def calm_def)
  have h2': "\<forall>j<1. completes interrupt_in_sound j"
    by (simp add: completes_def contained_def interrupt_in_sound_def calm_def)
  have h3: "(1::nat) < 7" by simp
  have h4: "isinstance_KeyboardInterrupt ?e" by simp
  have a: "contained (sound interrupt_in_sleep 1)" "sleeps interrupt_in_sleep 1 = Raises ?e"
    "after_attempt (sound interrupt_in_sleep 1) = []"
    by (simp_all add: interrupt_in_sleep_def calm_def contained_def after_attempt_def)
  have b: "sound interrupt_in_sound 1 = Raises ?e"
    by (simp add: interrupt_in_sound_def calm_def)
  from interrupt_shutdown [OF h1 h2 h3 h4] interrupt_shutdown [OF h1 h2' h3 h4] a b
  show ?thesis by simp
qed

text \<open>
  Claim C5, as the code has it (unexpected top-level failure). An instance of
  \<open>Exception\<close> that leaves the loop (it comes from the sleep, the playback function
  containing its own) is caught by the outer handler: the run prints the "Unexpected Error"
  line, the line with the details, then "Exiting.", and ends with exit status 0, the same
  status as after an interrupt.
\<close>

theorem unexpected_failure_exit:
  assumes "\<not> interval_rejected (INTERVAL_SECONDS c)" and "\<forall>j<k. completes w j"
    and "k < fuel" and "contained (sound w k)" and "sleeps w k = Raises e"
    and "isinstance_Exception e"
  shows "program ''Windows'' ''__main__'' c w fuel =
           (banner c @ cycles c w 0 k @ attempt c w k @ after_attempt (sound w k) @ wait_step c
              @ [Print [Lit ''\<newline>--- An Unexpected Error Occurred ---''],
                 Print [Lit ''Error details: '', FmtExc e],
                 Print [Lit ''Exiting.'']],
            Some (Exited 0))"
proof -
  from assms(3) have "\<exists>m. fuel = Suc (k + m)"
    by (rule less_imp_Suc_add)
  then obtain m where fuel: "fuel = k + Suc m"
    by auto
  let ?s = "\<lparr>globals = c, trace = banner c @ cycles c w 0 k\<rparr>"
  have run: "loop w fuel 0 \<lparr>globals = c, trace = banner c\<rparr> = loop w (Suc m) k ?s"
    unfolding fuel using assms(2) by (rule run_prefix)
  have no: "\<not> isinstance_KeyboardInterrupt e"
    using assms(6) interrupt_not_Exception by blast
  show ?thesis
    using assms(6) no
    by (simp add: program_loop [OF assms(1)] run loop_sleep_raises [OF assms(4,5)]
        unexpected_error_def cycle_def)
qed

text \<open>The sleep of the first iteration fails.\<close>

theorem unexpected_failure_exit_witness:
  "program ''Windows'' ''__main__'' shipped_config sleep_fails 4 =
     (banner shipped_config @ attempt shipped_config sleep_fails 0 @ wait_step shipped_config
        @ [Print [Lit ''\<newline>--- An Unexpected Error Occurred ---''],
           Print [Lit ''Error details: '',
                  FmtExc (PyExc OverflowError ''timestamp too large to convert to C PyTime_t'')],
           Print [Lit ''Exiting.'']],
      Some (Exited 0))"
proof -
  have h1: "\<not> interval_rejected (INTERVAL_SECONDS shipped_config)"
    by (simp add: shipped_config_def interval_rejected_def)
  have h2: "\<forall>j<0. completes sleep_fails j" by simp
  have h3: "(0::nat) < 4" by simp
  have h4: "contained (sound sleep_fails 0)"
    by (simp add: sleep_fails_def calm_def contained_def)
  have h5: "sleeps sleep_fails 0 =
      Raises (PyExc OverflowError ''timestamp too large to convert to C PyTime_t'')"
    by (simp add: sleep_fails_def calm_def)
  have h6: "isinstance_Exception (PyExc OverflowError ''timestamp too large to convert to C PyTime_t'')"
    by simp
  have none: "after_attempt (sound sleep_fails 0) = []"
    by (simp add: sleep_fails_def calm_def after_attempt_def)
  from unexpected_failure_exit [OF h1 h2 h3 h4 h5 h6] show ?thesis
    by (simp add: none cycles_0)
qed

text \<open>
  Against claim C5 as stated: a run whose sleep fails and a run stopped by Ctrl+C end with
  the same exit status, 0, so the exit status does not tell the two apart.
\<close>

theorem unexpected_failure_status_counterexample:
  "snd (program ''Windows'' ''__main__'' shipped_config sleep_fails (Suc 0)) = Some (Exited 0)
   \<and> snd (program ''Windows'' ''__main__'' shipped_config interrupt_in_sleep (Suc (Suc 0))) = Some (Exited 0)"
  by (simp add: program_def main_block_def loop.simps(2) play_windows_notification_def
      try_body_def status_print_def raises_at_def winsound_PlaySound_def time_sleep_def
      raised_def print_def emit_def shipped_config_def interval_rejected_def sleep_fails_def
      interrupt_in_sleep_def calm_def Let_def)

subsection \<open>The playback function\<close>

text \<open>
  Claim C7, as the code has it (mode dispatch). A call of \<open>play_windows_notification\<close>
  whose status prints do not raise adds to the history the timestamped line, then, by
  mode: the line with the alias name and \<open>PlaySound(SOUND_ALIAS, SND_ALIAS)\<close>; or the
  line with the file path and \<open>PlaySound(WAV_FILE, SND_FILENAME | SND_ASYNC)\<close>; or the
  line with the frequency in Hz and the duration in ms and
  \<open>Beep(BEEP_FREQUENCY, BEEP_DURATION)\<close>; then only the lines of a caught failure, which
  hold no further call. A call in which a status print raises invokes no primitive. The
  flag word of the file mode has the bits of \<open>SND_FILENAME\<close> and of \<open>SND_ASYNC\<close> and
  not that of \<open>SND_ALIAS\<close>; the flag word of the alias mode has no \<open>SND_ASYNC\<close> bit.
\<close>

theorem mode_dispatch:
  "(reaches_call w i \<longrightarrow>
      fst (play_windows_notification w i s) =
        s\<lparr>trace := trace s
           @ [Print [FmtTime (now w i) ''%Y-%m-%d %H:%M:%S'', Lit '' - Playing notification...'']]
           @ (if USE_ALIAS (globals s) then
                [Print [Lit ''(Using alias: '', FmtStr (SOUND_ALIAS (globals s)), Lit '')''],
                 PlaySound (SOUND_ALIAS (globals s)) SND_ALIAS]
              else if USE_WAV (globals s) then
                [Print [Lit ''(Using WAV file: '', FmtStr (WAV_FILE (globals s)), Lit '')''],
                 PlaySound (WAV_FILE (globals s)) (SND_FILENAME OR SND_ASYNC)]
              else
                [Print [Lit ''(Using Beep: '', FmtInt (BEEP_FREQUENCY (globals s)), Lit '' Hz, '',
                        FmtInt (BEEP_DURATION (globals s)), Lit '' ms)''],
                 Beep (BEEP_FREQUENCY (globals s)) (BEEP_DURATION (globals s))])
           @ after_attempt (sound w i)\<rparr>)
   \<and> (\<not> reaches_call w i \<longrightarrow>
      filter is_sound_call (trace (fst (play_windows_notification w i s))) =
        filter is_sound_call (trace s))
   \<and> filter is_sound_call (after_attempt (sound w i)) = []
   \<and> (SND_FILENAME OR SND_ASYNC) AND SND_FILENAME = SND_FILENAME
   \<and> (SND_FILENAME OR SND_ASYNC) AND SND_ASYNC = SND_ASYNC
   \<and> (SND_FILENAME OR SND_ASYNC) AND SND_ALIAS = 0
   \<and> SND_ALIAS AND SND_ASYNC = 0"
proof -
  have whole: "fst (play_windows_notification w i s) =
      s\<lparr>trace := trace s @ attempt (globals s) w i @ after_attempt (sound w i)\<rparr>"
    by (simp add: play_eq)
  have first: "fst (play_windows_notification w i s) =
     s\<lparr>trace := trace s
         @ [Print [FmtTime (now w i) ''%Y-%m-%d %H:%M:%S'', Lit '' - Playing notification...'']]
         @ (if USE_ALIAS (globals s) then
              [Print [Lit ''(Using alias: '', FmtStr (SOUND_ALIAS (globals s)), Lit '')''],
               PlaySound (SOUND_ALIAS (globals s)) SND_ALIAS]
            else if USE_WAV (globals s) then
              [Print [Lit ''(Using WAV file: '', FmtStr (WAV_FILE (globals s)), Lit '')''],
               PlaySound (WAV_FILE (globals s)) (SND_FILENAME OR SND_ASYNC)]
            else
              [Print [Lit ''(Using Beep: '', FmtInt (BEEP_FREQUENCY (globals s)), Lit '' Hz, '',
                      FmtInt (BEEP_DURATION (globals s)), Lit '' ms)''],
               Beep (BEEP_FREQUENCY (globals s)) (BEEP_DURATION (globals s))])
         @ after_attempt (sound w i)\<rparr>" if "reaches_call w i"
    unfolding whole attempt_reaches_call [OF that]
    by (simp add: using_line_def mode_call_def)
  have second: "filter is_sound_call (trace (fst (play_windows_notification w i s))) =
      filter is_sound_call (trace s)" if "\<not> reaches_call w i"
    using that by (simp add: whole sound_calls_attempt sound_calls_after_attempt)
  have flags: "(SND_FILENAME OR SND_ASYNC) AND SND_FILENAME = SND_FILENAME"
    "(SND_FILENAME OR SND_ASYNC) AND SND_ASYNC = SND_ASYNC"
    "(SND_FILENAME OR SND_ASYNC) AND SND_ALIAS = 0"
    "SND_ALIAS AND SND_ASYNC = 0"
    by (simp_all add: SND_FILENAME_def SND_ASYNC_def SND_ALIAS_def)
  from first second flags sound_calls_after_attempt show ?thesis by blast
qed

text \<open>The three modes, from the shipped constants with the flags switched.\<close>

theorem mode_dispatch_witness:
  "trace (fst (play_windows_notification calm 0 \<lparr>globals = shipped_config, trace = []\<rparr>)) =
     [Print [FmtTime noon ''%Y-%m-%d %H:%M:%S'', Lit '' - Playing notification...''],
      Print [Lit ''(Using alias: '', FmtStr ''SystemAsterisk'', Lit '')''],
      PlaySound ''SystemAsterisk'' 65536]
   \<and> trace (fst (play_windows_notification calm 0
         \<lparr>globals = shipped_config\<lparr>USE_ALIAS := False\<rparr>, trace = []\<rparr>)) =
     [Print [FmtTime noon ''%Y-%m-%d %H:%M:%S'', Lit '' - Playing notification...''],
      Print [Lit ''(Using WAV file: '', FmtStr (WAV_FILE shipped_config), Lit '')''],
      PlaySound (WAV_FILE shipped_config) 131073]
   \<and> trace (fst (play_windows_notification calm 0
         \<lparr>globals = shipped_config\<lparr>USE_ALIAS := False, USE_WAV := False\<rparr>, trace = []\<rparr>)) =
     [Print [FmtTime noon ''%Y-%m-%d %H:%M:%S'', Lit '' - Playing notification...''],
      Print [Lit ''(Using Beep: '', FmtInt 1000, Lit '' Hz, '', FmtInt 300, Lit '' ms)''],
      Beep 1000 300]"
proof -
  have quiet: "after_attempt (sound calm 0) = []" "now calm 0 = noon"
    by (simp_all add: calm_def after_attempt_def)
  have reach: "reaches_call calm 0"
    by (simp add: reaches_call_def raises_at_def calm_def)
  have a: "fst (play_windows_notification calm 0 s) =
     s\<lparr>trace := trace s
         @ [Print [FmtTime (now calm 0) ''%Y-%m-%d %H:%M:%S'', Lit '' - Playing notification...'']]
         @ (if USE_ALIAS (globals s) then
              [Print [Lit ''(Using alias: '', FmtStr (SOUND_ALIAS (globals s)), Lit '')''],
               PlaySound (SOUND_ALIAS (globals s)) SND_ALIAS]
            else if USE_WAV (globals s) then
              [Print [Lit ''(Using WAV file: '', FmtStr (WAV_FILE (globals s)), Lit '')''],
               PlaySound (WAV_FILE (globals s)) (SND_FILENAME OR SND_ASYNC)]
            else
              [Print [Lit ''(Using Beep: '', FmtInt (BEEP_FREQUENCY (globals s)), Lit '' Hz, '',
                      FmtInt (BEEP_DURATION (globals s)), Lit '' ms)''],
               Beep (BEEP_FREQUENCY (globals s)) (BEEP_DURATION (globals s))])
         @ after_attempt (sound calm 0)\<rparr>" for s
    using mode_dispatch [of calm 0 s, THEN conjunct1] reach by (rule mp)
  show ?thesis
    by (simp add: a quiet shipped_config_def SND_ALIAS_def SND_FILENAME_def SND_ASYNC_def)
qed

text \<open>
  Against claim C7 as stated. The alias holds a letter that the console cannot encode:
  the print of the resource line raises, the handler logs it, and the playback call
  invokes no primitive and prints no line naming the resource.
\<close>

theorem mode_dispatch_counterexample:
  "USE_ALIAS accented_alias
   \<and> trace (fst (play_windows_notification ascii_console 0
         \<lparr>globals = accented_alias, trace = []\<rparr>)) =
     [Print [FmtTime noon ''%Y-%m-%d %H:%M:%S'', Lit '' - Playing notification...''],
      Print [Lit ''\<newline>An unexpected error occurred during sound playback: '',
             FmtExc (PyExc UnicodeEncodeError ''ordinal not in range(128)'')]]"
  by (simp add: play_eq attempt_def raises_at_def after_attempt_def failure_lines_def
      ascii_console_def calm_def accented_alias_def shipped_config_def)

text \<open>
  Claim C9, as the code has it (dispatch priority). The mode is decided by two booleans,
  alias first: in a playback call that reaches its primitive, with \<open>USE_ALIAS\<close> the one
  sound call made is the alias call, whatever \<open>USE_WAV\<close> is; the file call needs
  \<open>USE_ALIAS\<close> false and \<open>USE_WAV\<close> true; the beep needs both false. A playback
  call in which a status print raises makes no sound call, so every playback call makes at
  most one. The shipped constants have both flags true, and no run with them ever plays
  \<open>WAV_FILE\<close>.
\<close>

theorem dispatch_priority:
  "(reaches_call w i \<and> USE_ALIAS (globals s) \<longrightarrow>
      filter is_sound_call (trace (fst (play_windows_notification w i s))) =
        filter is_sound_call (trace s) @ [PlaySound (SOUND_ALIAS (globals s)) SND_ALIAS])
   \<and> (reaches_call w i \<and> \<not> USE_ALIAS (globals s) \<and> USE_WAV (globals s) \<longrightarrow>
      filter is_sound_call (trace (fst (play_windows_notification w i s))) =
        filter is_sound_call (trace s)
          @ [PlaySound (WAV_FILE (globals s)) (SND_FILENAME OR SND_ASYNC)])
   \<and> (reaches_call w i \<and> \<not> USE_ALIAS (globals s) \<and> \<not> USE_WAV (globals s) \<longrightarrow>
      filter is_sound_call (trace (fst (play_windows_notification w i s))) =
        filter is_sound_call (trace s)
          @ [Beep (BEEP_FREQUENCY (globals s)) (BEEP_DURATION (globals s))])
   \<and> (\<not> reaches_call w i \<longrightarrow>
      filter is_sound_call (trace (fst (play_windows_notification w i s))) =
        filter is_sound_call (trace s))
   \<and> length (filter is_sound_call (trace (fst (play_windows_notification w i s)))) \<le>
       Suc (length (filter is_sound_call (trace s)))
   \<and> USE_ALIAS shipped_config \<and> USE_WAV shipped_config
   \<and> (\<forall>ev \<in> set (fst (program system name shipped_config w fuel)).
         \<forall>flags. ev \<noteq> PlaySound (WAV_FILE shipped_config) flags)"
proof -
  have calls: "filter is_sound_call (trace (fst (play_windows_notification w i s))) =
      filter is_sound_call (trace s) @ (if reaches_call w i then [mode_call (globals s)] else [])"
    by (simp add: play_eq sound_calls_attempt sound_calls_after_attempt)
  have "ev \<noteq> PlaySound (WAV_FILE shipped_config) flags"
    if "ev \<in> set (fst (program system name shipped_config w fuel))" for ev flags
  proof -
    from that have "from_config shipped_config ev"
      using program_events [of shipped_config system name w fuel]
      by (simp add: list_all_iff)
    then show ?thesis
      by (cases ev) (auto simp: mode_call_def shipped_config_def)
  qed
  with calls show ?thesis
    by (simp add: mode_call_def shipped_config_def)
qed

text \<open>The three flag settings, and a run of the shipped constants.\<close>

theorem dispatch_priority_witness:
  "filter is_sound_call (trace (fst (play_windows_notification calm 0
       \<lparr>globals = shipped_config, trace = []\<rparr>))) = [PlaySound ''SystemAsterisk'' 65536]
   \<and> filter is_sound_call (trace (fst (play_windows_notification calm 0
       \<lparr>globals = shipped_config\<lparr>USE_ALIAS := False\<rparr>, trace = []\<rparr>))) =
       [PlaySound (WAV_FILE shipped_config) 131073]
   \<and> filter is_sound_call (trace (fst (play_windows_notification calm 0
       \<lparr>globals = shipped_config\<lparr>USE_ALIAS := False, USE_WAV := False\<rparr>, trace = []\<rparr>))) =
       [Beep 1000 300]
   \<and> PlaySound (WAV_FILE shipped_config) 131073
       \<notin> set (fst (program ''Windows'' ''__main__'' shipped_config busy_once 5))"
proof -
  have reach: "reaches_call calm 0"
    by (simp add: reaches_call_def raises_at_def calm_def)
  note inst = dispatch_priority [where i = 0 and system = "''Windows''" and name = "''__main__''"
      and fuel = 5]
  note a = inst [where s = "\<lparr>globals = shipped_config, trace = []\<rparr>" and w = calm]
  note b = inst [where s = "\<lparr>globals = shipped_config\<lparr>USE_ALIAS := False\<rparr>, trace = []\<rparr>"
      and w = calm]
  note c = inst [where s = "\<lparr>globals = shipped_config\<lparr>USE_ALIAS := False, USE_WAV := False\<rparr>, trace = []\<rparr>"
      and w = calm]
  note d = inst [where s = "\<lparr>globals = shipped_config, trace = []\<rparr>" and w = busy_once]
  from d have last: "PlaySound (WAV_FILE shipped_config) 131073
      \<notin> set (fst (program ''Windows'' ''__main__'' shipped_config busy_once 5))"
    by blast
  from a reach have p1: "filter is_sound_call (trace (fst (play_windows_notification calm 0
       \<lparr>globals = shipped_config, trace = []\<rparr>))) = [PlaySound ''SystemAsterisk'' 65536]"
    by (simp add: shipped_config_def SND_ALIAS_def)
  from b reach have p2: "filter is_sound_call (trace (fst (play_windows_notification calm 0
       \<lparr>globals = shipped_config\<lparr>USE_ALIAS := False\<rparr>, trace = []\<rparr>))) =
       [PlaySound (WAV_FILE shipped_config) 131073]"
    by (simp add: shipped_config_def SND_FILENAME_def SND_ASYNC_def)
  from c reach have p3: "filter is_sound_call (trace (fst (play_windows_notification calm 0
       \<lparr>globals = shipped_config\<lparr>USE_ALIAS := False, USE_WAV := False\<rparr>, trace = []\<rparr>))) =
       [Beep 1000 300]"
    by (simp add: shipped_config_def)
  from p1 p2 p3 last show ?thesis
    by (intro conjI)
qed

text \<open>
  Against claim C9 as stated. With \<open>USE_ALIAS\<close> true and an alias that the console
  cannot encode, two whole iterations of the loop make no sound call at all: the playback
  calls invoke zero primitives, not one.
\<close>

theorem dispatch_priority_counterexample:
  "USE_ALIAS accented_alias
   \<and> fst (program ''Windows'' ''__main__'' accented_alias ascii_console 2) =
       banner accented_alias @ cycles accented_alias ascii_console 0 2
   \<and> filter is_sound_call (fst (program ''Windows'' ''__main__'' accented_alias ascii_console 2)) = []"
proof -
  have flag: "USE_ALIAS accented_alias"
    by (simp add: accented_alias_def shipped_config_def)
  have ok: "\<not> interval_rejected (INTERVAL_SECONDS accented_alias)"
    by (simp add: accented_alias_def shipped_config_def interval_rejected_def)
  have "\<forall>j<2. completes ascii_console j"
    by (simp add: completes_def contained_def ascii_console_def calm_def)
  then have "loop ascii_console 2 0 \<lparr>globals = accented_alias, trace = banner accented_alias\<rparr> =
      (\<lparr>globals = accented_alias,
        trace = banner accented_alias @ cycles accented_alias ascii_console 0 2\<rparr>, None)"
    using run_prefix [of 2 ascii_console 0 accented_alias] by simp
  then have run: "fst (program ''Windows'' ''__main__'' accented_alias ascii_console 2) =
      banner accented_alias @ cycles accented_alias ascii_console 0 2"
    by (simp add: program_loop [OF ok])
  have stopped: "\<not> reaches_call ascii_console j" for j
    by (simp add: reaches_call_def raises_at_def ascii_console_def calm_def)
  have two: "cycles accented_alias ascii_console 0 2 =
      cycle accented_alias ascii_console 0 @ cycle accented_alias ascii_console (Suc 0)"
    by (simp add: cycles_def upt_rec numeral_2_eq_2)
  have silent: "filter is_sound_call (banner accented_alias @ cycles accented_alias ascii_console 0 2) = []"
    unfolding two by (simp add: banner_def sound_calls_cycle stopped)
  from flag run silent show ?thesis
    by simp
qed

text \<open>
  Claim C10 (exception containment). \<open>play_windows_notification\<close> never hands an
  instance of \<open>Exception\<close> to its caller: what leaves it is a
  \<open>KeyboardInterrupt\<close> raised inside its \<open>try\<close>. An instance of \<open>Exception\<close>
  raised there is caught and logged. A \<open>KeyboardInterrupt\<close> raised there leaves the
  function and the loop without any handler line, and the handler of the main block answers
  it with the "Stopped by User" and "Exiting." lines and exit status 0. So the loop is
  left only by an interrupt or by an exception of the sleep, the one call outside the
  function's \<open>try\<close>.
\<close>

theorem playback_exception_containment:
  "(\<forall>x. snd (play_windows_notification w i s) = Some x \<longrightarrow>
        \<not> isinstance_Exception x \<and> isinstance_KeyboardInterrupt x \<and> sound w i = Raises x)
   \<and> (sound w i = Raises e \<and> isinstance_Exception e \<longrightarrow>
        play_windows_notification w i s =
          (s\<lparr>trace := trace s @ attempt (globals s) w i @ failure_lines e\<rparr>, None)
        \<and> failure_lines e \<noteq> [])
   \<and> (sound w i = Raises e \<and> isinstance_KeyboardInterrupt e \<longrightarrow>
        play_windows_notification w i s = (s\<lparr>trace := trace s @ attempt (globals s) w i\<rparr>, Some e)
        \<and> loop w (Suc n) i s = (s\<lparr>trace := trace s @ attempt (globals s) w i\<rparr>, Some e))
   \<and> (loop w fuel 0 (s\<lparr>trace := trace s @ banner (globals s)\<rparr>) = (s5, Some e)
          \<and> isinstance_KeyboardInterrupt e \<longrightarrow>
        main_block w fuel s =
          (s5\<lparr>trace := trace s5
                @ [Print [Lit ''\<newline>--- Notification Script Stopped by User ---''],
                   Print [Lit ''Exiting.'']]\<rparr>,
           Some (Exited 0)))
   \<and> (\<forall>s' x. loop w n i s = (s', Some x) \<longrightarrow>
        isinstance_KeyboardInterrupt x
        \<or> (\<exists>j. i \<le> j \<and> j < i + n \<and> contained (sound w j) \<and> sleeps w j = Raises x))"
proof -
  have escaping: "\<not> isinstance_Exception x \<and> isinstance_KeyboardInterrupt x \<and> sound w i = Raises x"
    if "snd (play_windows_notification w i s) = Some x" for x
    using that isinstance_cases [of x]
    by (cases "sound w i") (auto simp: play_eq split: if_splits)
  have caught: "play_windows_notification w i s =
      (s\<lparr>trace := trace s @ attempt (globals s) w i @ failure_lines e\<rparr>, None)
      \<and> failure_lines e \<noteq> []"
    if "sound w i = Raises e" and "isinstance_Exception e"
    using that failure_lines_nonempty [of e] by (simp add: play_eq after_attempt_def)
  have passes: "play_windows_notification w i s =
        (s\<lparr>trace := trace s @ attempt (globals s) w i\<rparr>, Some e)
      \<and> loop w (Suc n) i s = (s\<lparr>trace := trace s @ attempt (globals s) w i\<rparr>, Some e)"
    if "sound w i = Raises e" and "isinstance_KeyboardInterrupt e"
  proof -
    from that(2) have no: "\<not> isinstance_Exception e" by (rule interrupt_not_Exception)
    then have "failure_lines e = []"
      by (cases e) (simp add: failure_lines_def)
    with that(1) no show ?thesis
      by (simp add: play_eq after_attempt_def loop_sound_escapes)
  qed
  have handler: "main_block w fuel s =
      (s5\<lparr>trace := trace s5
            @ [Print [Lit ''\<newline>--- Notification Script Stopped by User ---''],
               Print [Lit ''Exiting.'']]\<rparr>,
       Some (Exited 0))"
    if "loop w fuel 0 (s\<lparr>trace := trace s @ banner (globals s)\<rparr>) = (s5, Some e)"
      and "isinstance_KeyboardInterrupt e"
    using that by (simp add: main_block_eq stopped_by_user_def)
  have leaving: "isinstance_KeyboardInterrupt x
      \<or> (\<exists>j. i \<le> j \<and> j < i + n \<and> contained (sound w j) \<and> sleeps w j = Raises x)"
    if "loop w n i s = (s', Some x)" for s' x
    using loop_exit [OF that] isinstance_cases [of x] by blast
  from escaping caught passes handler leaving show ?thesis
    by blast
qed

text \<open>A busy device is contained; Ctrl+C during the sound call is not.\<close>

theorem playback_exception_containment_witness:
  "play_windows_notification busy_once 1 \<lparr>globals = shipped_config, trace = []\<rparr> =
     (\<lparr>globals = shipped_config,
       trace = attempt shipped_config busy_once 1
         @ failure_lines (PyExc RuntimeError ''Failed to play sound'')\<rparr>, None)
   \<and> play_windows_notification interrupt_in_sound 1 \<lparr>globals = shipped_config, trace = []\<rparr> =
     (\<lparr>globals = shipped_config, trace = attempt shipped_config interrupt_in_sound 1\<rparr>,
      Some (PyExc KeyboardInterrupt []))
   \<and> loop interrupt_in_sound 4 1 \<lparr>globals = shipped_config, trace = []\<rparr> =
     (\<lparr>globals = shipped_config, trace = attempt shipped_config interrupt_in_sound 1\<rparr>,
      Some (PyExc KeyboardInterrupt []))"
proof -
  let ?s = "\<lparr>globals = shipped_config, trace = []\<rparr>"
  have busy: "sound busy_once 1 = Raises (PyExc RuntimeError ''Failed to play sound'')
      \<and> isinstance_Exception (PyExc RuntimeError ''Failed to play sound'')"
    by (simp add: busy_once_def calm_def)
  have ctrl_c: "sound interrupt_in_sound 1 = Raises (PyExc KeyboardInterrupt [])
      \<and> isinstance_KeyboardInterrupt (PyExc KeyboardInterrupt [])"
    by (simp add: interrupt_in_sound_def calm_def)
  have four: "Suc 3 = (4::nat)" by simp
  from playback_exception_containment [where w = busy_once and i = 1 and s = ?s
      and e = "PyExc RuntimeError ''Failed to play sound''", THEN conjunct2, THEN conjunct1] busy
  have a: "play_windows_notification busy_once 1 ?s =
     (\<lparr>globals = shipped_config,
       trace = attempt shipped_config busy_once 1
         @ failure_lines (PyExc RuntimeError ''Failed to play sound'')\<rparr>, None)"
    by simp
  from playback_exception_containment [where w = interrupt_in_sound and i = 1 and s = ?s
      and e = "PyExc KeyboardInterrupt []" and n = 3, THEN conjunct2, THEN conjunct2,
      THEN conjunct1] ctrl_c
  have b: "play_windows_notification interrupt_in_sound 1 ?s =
     (\<lparr>globals = shipped_config, trace = attempt shipped_config interrupt_in_sound 1\<rparr>,
      Some (PyExc KeyboardInterrupt []))
    \<and> loop interrupt_in_sound (Suc 3) 1 ?s =
     (\<lparr>globals = shipped_config, trace = attempt shipped_config interrupt_in_sound 1\<rparr>,
      Some (PyExc KeyboardInterrupt []))"
    by simp
  from a b [unfolded four] show ?thesis
    by (intro conjI) (erule conjunct1 conjunct2 | assumption)+
qed

subsection \<open>The configuration\<close>

text \<open>
  Claim C8 (configuration immutability). No operation of the script changes the globals:
  not the effects, not the playback function, not the loop, not the main block. In every
  run, each call of a sound primitive is the call of the mode of the configuration the
  run started with, and each sleep is for its interval.
\<close>

theorem configuration_immutable:
  "globals (emit ev s) = globals s
   \<and> globals (print l s) = globals s
   \<and> globals (fst (winsound_PlaySound w i name flags s)) = globals s
   \<and> globals (fst (winsound_Beep w i freq dur s)) = globals s
   \<and> globals (fst (time_sleep w i secs s)) = globals s
   \<and> globals (fst (try_body w i s)) = globals s
   \<and> globals (fst (play_windows_notification w i s)) = globals s
   \<and> globals (fst (loop w n i s)) = globals s
   \<and> globals (fst (main_block w n s)) = globals s
   \<and> (\<forall>ev \<in> set (fst (program system name c w fuel)).
         (is_sound_call ev \<longrightarrow> ev = mode_call c)
         \<and> (\<forall>v. ev = Sleep v \<longrightarrow> v = INTERVAL_SECONDS c))"
proof -
  have "(is_sound_call ev \<longrightarrow> ev = mode_call c) \<and> (\<forall>v. ev = Sleep v \<longrightarrow> v = INTERVAL_SECONDS c)"
    if "ev \<in> set (fst (program system name c w fuel))" for ev
  proof -
    from that have "from_config c ev"
      using program_events [of c system name w fuel] by (simp add: list_all_iff)
    then show ?thesis by (cases ev) auto
  qed
  then show ?thesis
    by (simp add: globals_emit globals_print winsound_PlaySound_def winsound_Beep_def
        time_sleep_def try_body_eq globals_play globals_loop globals_main_block)
qed

text \<open>Runs of the shipped constants.\<close>

theorem configuration_immutable_witness:
  "globals (fst (loop busy_once 3 0 \<lparr>globals = shipped_config, trace = []\<rparr>)) = shipped_config
   \<and> globals (fst (main_block interrupt_in_sleep 5 \<lparr>globals = shipped_config, trace = []\<rparr>)) =
       shipped_config
   \<and> PlaySound ''SystemAsterisk'' 65536
       \<in> set (fst (program ''Windows'' ''__main__'' shipped_config busy_once 3))
   \<and> Sleep (PyInt 300) \<in> set (fst (program ''Windows'' ''__main__'' shipped_config busy_once 3))
   \<and> set (filter is_sound_call (fst (program ''Windows'' ''__main__'' shipped_config busy_once 3)))
       \<subseteq> {PlaySound ''SystemAsterisk'' 65536}
   \<and> Sleep (PyInt 5) \<notin> set (fst (program ''Windows'' ''__main__'' shipped_config busy_once 3))"
proof -
  let ?run = "fst (program ''Windows'' ''__main__'' shipped_config busy_once 3)"
  have call: "mode_call shipped_config = PlaySound ''SystemAsterisk'' 65536"
    "INTERVAL_SECONDS shipped_config = PyInt 300"
    by (simp_all add: mode_call_def shipped_config_def SND_ALIAS_def)
  have ok: "\<not> interval_rejected (INTERVAL_SECONDS shipped_config)"
    by (simp add: shipped_config_def interval_rejected_def)
  have "\<forall>j<3. completes busy_once j"
    by (simp add: completes_def contained_def busy_once_def calm_def)
  then have "loop busy_once 3 0 \<lparr>globals = shipped_config, trace = banner shipped_config\<rparr> =
      (\<lparr>globals = shipped_config,
        trace = banner shipped_config @ cycles shipped_config busy_once 0 3\<rparr>, None)"
    using run_prefix [of 3 busy_once 0 shipped_config] by simp
  then have run: "?run = banner shipped_config @ cycles shipped_config busy_once 0 (Suc (Suc (Suc 0)))"
    by (simp add: program_loop [OF ok] numeral_3_eq_3)
  have present: "PlaySound ''SystemAsterisk'' 65536 \<in> set ?run" "Sleep (PyInt 300) \<in> set ?run"
    unfolding run
    by (simp_all add: cycles_Suc_left cycle_def attempt_def raises_at_def busy_once_def calm_def
        wait_step_def call)
  note inst = configuration_immutable [where s = "\<lparr>globals = shipped_config, trace = []\<rparr>"
      and system = "''Windows''" and name = "''__main__''" and c = shipped_config and fuel = 3]
  note a = inst [where w = busy_once and n = 3 and i = 0]
  note b = inst [where w = interrupt_in_sleep and n = 5]
  from a have g1: "globals (fst (loop busy_once 3 0 \<lparr>globals = shipped_config, trace = []\<rparr>)) =
      shipped_config"
    by simp
  from b have g2: "globals (fst (main_block interrupt_in_sleep 5
      \<lparr>globals = shipped_config, trace = []\<rparr>)) = shipped_config"
    by simp
  from a have every: "\<forall>ev \<in> set ?run.
      (is_sound_call ev \<longrightarrow> ev = PlaySound ''SystemAsterisk'' 65536)
      \<and> (\<forall>v. ev = Sleep v \<longrightarrow> v = PyInt 300)"
    unfolding call by blast
  from every have calls: "set (filter is_sound_call ?run) \<subseteq> {PlaySound ''SystemAsterisk'' 65536}"
    by auto
  from every have sleeps: "Sleep (PyInt 5) \<notin> set ?run"
    by auto
  from g1 g2 present calls sleeps show ?thesis
    by (intro conjI)
qed

end
